theory Spec2Isabelle
  imports Main
begin

section \<open>The dataflow diagnostics pass of lib/SILPasses/DataflowDiagnostics.cpp\<close>

text \<open>
  The pass walks a SIL module and reports three defects through the diagnostic engine of
  the AST context: a function that falls off its end without returning a value
  (\<open>missing_return\<close>), a switch that does not cover every case
  (\<open>non_exhaustive_switch\<close>) and a return inside a function declared never to return
  (\<open>return_from_noreturn\<close>).

  The classes the pass reads (types, declarations, locations, the SIL object graph, the
  diagnostic engine) are declared in headers outside the file; they are modelled here by
  the queries the pass makes of them, each a field or a small function named after the
  C++ accessor.
\<close>

subsection \<open>Types and declarations\<close>

text \<open>
  Modelled from the spec: the type system (\<open>Type\<close>, \<open>AnyFunctionType\<close>), declared in
  headers outside the file. Of a function type the pass reads only the no-return bit
  (the spec's never-returning marker). Of a type in general it asks \<open>isVoid\<close>, true of
  the "no value" type alone, and \<open>castTo<AnyFunctionType>\<close>.
\<close>

datatype AnyFunctionType = AnyFunctionType (isNoReturn: bool)

datatype swift_type =
    EmptyTupleType
  | NominalType string
  | FunctionType AnyFunctionType

definition isVoid :: "swift_type \<Rightarrow> bool" where
  "isVoid ty = (ty = EmptyTupleType)"

datatype error = AssertionFailure

text \<open>
  Modelled from the spec: \<open>castTo<T>\<close>, a checked downcast declared outside the file. It
  never yields a null pointer; a type of another class is a broken invariant, which
  surfaces as a fatal assertion.
\<close>

definition castTo_AnyFunctionType :: "swift_type \<Rightarrow> error + AnyFunctionType" where
  "castTo_AnyFunctionType ty =
     (case ty of FunctionType T \<Rightarrow> Inr T | _ \<Rightarrow> Inl AssertionFailure)"

text \<open>
  Modelled from the spec: the declaration model (\<open>FuncDecl\<close>), declared outside the file.
  A \<open>FuncDecl\<close> answers \<open>getResultType\<close>, the declared result type, and, through
  \<open>getFuncExpr()->getType()\<close>, the type of its function expression; both are fields.
\<close>

record FuncDecl =
  DeclName :: string
  getResultType :: swift_type
  getFuncExprType :: swift_type

text \<open>
  Modelled from the spec: the AST nodes a location can wrap, declared outside the file.
  The pass tells apart \<open>FuncDecl\<close>, \<open>AbstractFunctionDecl\<close> and \<open>SwitchStmt\<close>.
  \<open>AbstractFunctionDecl\<close> is the base class of \<open>FuncDecl\<close>; its other subclasses declare
  constructors and destructors.
\<close>

datatype ASTNode =
    FuncDeclNode FuncDecl
  | ConstructorDeclNode
  | DestructorDeclNode
  | SwitchStmtNode
  | OtherNode

fun isa_AbstractFunctionDecl :: "ASTNode \<Rightarrow> bool" where
  "isa_AbstractFunctionDecl (FuncDeclNode FD) = True"
| "isa_AbstractFunctionDecl ConstructorDeclNode = True"
| "isa_AbstractFunctionDecl DestructorDeclNode = True"
| "isa_AbstractFunctionDecl SwitchStmtNode = False"
| "isa_AbstractFunctionDecl OtherNode = False"

fun isa_SwitchStmt :: "ASTNode \<Rightarrow> bool" where
  "isa_SwitchStmt SwitchStmtNode = True"
| "isa_SwitchStmt (FuncDeclNode FD) = False"
| "isa_SwitchStmt ConstructorDeclNode = False"
| "isa_SwitchStmt DestructorDeclNode = False"
| "isa_SwitchStmt OtherNode = False"

subsection \<open>Locations\<close>

text \<open>
  Modelled from the spec: \<open>SILLocation\<close>, declared outside the file. A location wraps an
  AST node, or none when the instruction was generated by a SIL pass, and has exactly one
  kind, which \<open>is<ReturnLocation>\<close> and \<open>is<ImplicitReturnLocation>\<close> test. Its positions
  are fields: \<open>getSourceLoc\<close> is the spec's start position, \<open>getEndSourceLoc\<close> its end
  position. A location converts to \<open>true\<close> exactly when it wraps a node.
\<close>

type_synonym SourceLoc = nat

datatype LocationKind =
    RegularLocation
  | ReturnLocation
  | ImplicitReturnLocation
  | OtherLocation

record SILLocation =
  ASTNodeOf :: "ASTNode option"
  LocKind :: LocationKind
  getSourceLoc :: SourceLoc
  getEndSourceLoc :: SourceLoc

definition hasASTLocation :: "SILLocation \<Rightarrow> bool" where
  "hasASTLocation L = (ASTNodeOf L \<noteq> None)"

definition isASTNode_AbstractFunctionDecl :: "SILLocation \<Rightarrow> bool" where
  "isASTNode_AbstractFunctionDecl L =
     (case ASTNodeOf L of None \<Rightarrow> False | Some n \<Rightarrow> isa_AbstractFunctionDecl n)"

definition isASTNode_SwitchStmt :: "SILLocation \<Rightarrow> bool" where
  "isASTNode_SwitchStmt L =
     (case ASTNodeOf L of None \<Rightarrow> False | Some n \<Rightarrow> isa_SwitchStmt n)"

definition getAsASTNode_FuncDecl :: "SILLocation \<Rightarrow> FuncDecl option" where
  "getAsASTNode_FuncDecl L =
     (case ASTNodeOf L of Some (FuncDeclNode FD) \<Rightarrow> Some FD | _ \<Rightarrow> None)"

definition is_ReturnLocation :: "SILLocation \<Rightarrow> bool" where
  "is_ReturnLocation L = (LocKind L = ReturnLocation)"

definition is_ImplicitReturnLocation :: "SILLocation \<Rightarrow> bool" where
  "is_ImplicitReturnLocation L = (LocKind L = ImplicitReturnLocation)"

subsection \<open>The SIL object graph\<close>

text \<open>
  Modelled from the spec: the SIL classes, declared outside the file. \<open>UnreachableInst\<close>,
  \<open>BranchInst\<close> and \<open>ReturnInst\<close> are terminators (\<open>TermInst\<close>); so are other
  instructions the pass does not look at, and most instructions are no terminators. A
  module is a list of functions, a function a list of blocks, a block a list of
  instructions, each in declaration order.
\<close>

datatype ValueKind =
    UnreachableInst
  | BranchInst
  | ReturnInst
  | OtherTermInst
  | OtherInst

fun isa_TermInst :: "ValueKind \<Rightarrow> bool" where
  "isa_TermInst UnreachableInst = True"
| "isa_TermInst BranchInst = True"
| "isa_TermInst ReturnInst = True"
| "isa_TermInst OtherTermInst = True"
| "isa_TermInst OtherInst = False"

record SILInstruction =
  getKind :: ValueKind
  getLoc :: SILLocation

record SILBasicBlock =
  Insts :: "SILInstruction list"

record SILFunction =
  getLocation :: SILLocation
  Blocks :: "SILBasicBlock list"

subsection \<open>Diagnostics\<close>

text \<open>
  Modelled from the spec: the diagnostic engine, declared outside the file, an
  append-only sink. A diagnostic is a position and one of the three kinds the pass emits,
  \<open>missing_return\<close> carrying the declared result type.
\<close>

datatype Diag =
    missing_return swift_type
  | non_exhaustive_switch
  | return_from_noreturn

record Diagnostic =
  DiagLoc :: SourceLoc
  DiagID :: Diag

text \<open>
  The AST context owns the diagnostic engine; what the engine has been handed so far is
  the list \<open>Diags\<close>, oldest first.
\<close>

record ASTContext =
  Diags :: "Diagnostic list"

record SILModule =
  Functions :: "SILFunction list"
  getASTContext :: ASTContext

definition diagnose :: "ASTContext \<Rightarrow> SourceLoc \<Rightarrow> Diag \<Rightarrow> ASTContext" where
  "diagnose Context loc d = Context\<lparr>Diags := Diags Context @ [\<lparr>DiagLoc = loc, DiagID = d\<rparr>]\<rparr>"

subsection \<open>The classifiers\<close>

text \<open>
  The source reaches the enclosing function of an instruction through
  \<open>getParent()->getParent()\<close>; here the function \<open>F\<close> is an argument, and the traversal
  passes the function whose blocks it is iterating. Each classifier takes the context and
  returns it with the diagnostics it emitted appended, or the failed assertion.
\<close>

definition diagnoseMissingReturn ::
  "SILFunction \<Rightarrow> SILInstruction \<Rightarrow> ASTContext \<Rightarrow> error + ASTContext" where
  "diagnoseMissingReturn F UI Context =
     (let FLoc = getLocation F in
      case getAsASTNode_FuncDecl FLoc of
        Some FD \<Rightarrow>
          (let ResTy = getResultType FD in
           if isVoid ResTy then Inr Context
           else
             (case castTo_AnyFunctionType (getFuncExprType FD) of
                Inl e \<Rightarrow> Inl e
              | Inr T \<Rightarrow>
                  if isNoReturn T then Inr Context
                  else
                    (let L = getLoc UI in
                     if \<not> hasASTLocation L then Inl AssertionFailure
                     else Inr (diagnose Context (getEndSourceLoc L) (missing_return ResTy)))))
      | None \<Rightarrow> Inr Context)"

definition diagnoseNonExhaustiveSwitch ::
  "SILInstruction \<Rightarrow> ASTContext \<Rightarrow> error + ASTContext" where
  "diagnoseNonExhaustiveSwitch UI Context =
     (let L = getLoc UI in
      if \<not> hasASTLocation L then Inl AssertionFailure
      else Inr (diagnose Context (getEndSourceLoc L) non_exhaustive_switch))"

definition diagnoseUnreachable ::
  "SILFunction \<Rightarrow> SILInstruction \<Rightarrow> ASTContext \<Rightarrow> error + ASTContext" where
  "diagnoseUnreachable F I Context =
     (if getKind I = UnreachableInst then
        (let L = getLoc I in
         if \<not> hasASTLocation L then Inr Context
         else if isASTNode_AbstractFunctionDecl L then diagnoseMissingReturn F I Context
         else if isASTNode_SwitchStmt L then diagnoseNonExhaustiveSwitch I Context
         else Inr Context)
      else Inr Context)"

definition diagnoseReturn ::
  "SILFunction \<Rightarrow> SILInstruction \<Rightarrow> ASTContext \<Rightarrow> error + ASTContext" where
  "diagnoseReturn F I Context =
     (if \<not> isa_TermInst (getKind I) \<or> \<not> (getKind I = BranchInst \<or> getKind I = ReturnInst)
      then Inr Context
      else
        (let FLoc = getLocation F in
         case getAsASTNode_FuncDecl FLoc of
           Some FD \<Rightarrow>
             (case castTo_AnyFunctionType (getFuncExprType FD) of
                Inl e \<Rightarrow> Inl e
              | Inr T \<Rightarrow>
                  if isNoReturn T then
                    (let L = getLoc I;
                         Context1 = (if is_ReturnLocation L
                                     then diagnose Context (getSourceLoc L) return_from_noreturn
                                     else Context);
                         Context2 = (if is_ImplicitReturnLocation L
                                     then diagnose Context1 (getSourceLoc L) return_from_noreturn
                                     else Context1)
                     in Inr Context2)
                  else Inr Context)
         | None \<Rightarrow> Inr Context))"

subsection \<open>The traversal\<close>

text \<open>
  The body of the innermost loop: the unreachable classifier, then the return classifier,
  on the same instruction.
\<close>

definition visitInstruction ::
  "SILFunction \<Rightarrow> SILInstruction \<Rightarrow> ASTContext \<Rightarrow> error + ASTContext" where
  "visitInstruction Fn I Context =
     (case diagnoseUnreachable Fn I Context of
        Inl e \<Rightarrow> Inl e
      | Inr Context1 \<Rightarrow> diagnoseReturn Fn I Context1)"

fun visitInstructions ::
  "SILFunction \<Rightarrow> SILInstruction list \<Rightarrow> ASTContext \<Rightarrow> error + ASTContext" where
  "visitInstructions Fn [] Context = Inr Context"
| "visitInstructions Fn (I # Is) Context =
     (case visitInstruction Fn I Context of
        Inl e \<Rightarrow> Inl e
      | Inr Context1 \<Rightarrow> visitInstructions Fn Is Context1)"

fun visitBlocks ::
  "SILFunction \<Rightarrow> SILBasicBlock list \<Rightarrow> ASTContext \<Rightarrow> error + ASTContext" where
  "visitBlocks Fn [] Context = Inr Context"
| "visitBlocks Fn (BB # BBs) Context =
     (case visitInstructions Fn (Insts BB) Context of
        Inl e \<Rightarrow> Inl e
      | Inr Context1 \<Rightarrow> visitBlocks Fn BBs Context1)"

fun visitFunctions :: "SILFunction list \<Rightarrow> ASTContext \<Rightarrow> error + ASTContext" where
  "visitFunctions [] Context = Inr Context"
| "visitFunctions (Fn # Fns) Context =
     (case visitBlocks Fn (Blocks Fn) Context of
        Inl e \<Rightarrow> Inl e
      | Inr Context1 \<Rightarrow> visitFunctions Fns Context1)"

text \<open>
  The module holds the context the diagnostics go to; the pass returns the module with
  that context updated.
\<close>

definition emitSILDataflowDiagnostics :: "SILModule \<Rightarrow> error + SILModule" where
  "emitSILDataflowDiagnostics M =
     (case visitFunctions (Functions M) (getASTContext M) of
        Inl e \<Rightarrow> Inl e
      | Inr Context \<Rightarrow> Inr (M\<lparr>getASTContext := Context\<rparr>))"

subsection \<open>The canonical order of diagnostics\<close>

text \<open>
  What one classifier reports for one instruction, read off a run on the context that
  holds no diagnostic yet.
\<close>

definition emptyContext :: ASTContext where
  "emptyContext = \<lparr>Diags = []\<rparr>"

definition emitted :: "error + ASTContext \<Rightarrow> error + Diagnostic list" where
  "emitted r = (case r of Inl e \<Rightarrow> Inl e | Inr Context \<Rightarrow> Inr (Diags Context))"

definition unreachableDiags :: "SILFunction \<Rightarrow> SILInstruction \<Rightarrow> error + Diagnostic list" where
  "unreachableDiags F I = emitted (diagnoseUnreachable F I emptyContext)"

definition returnDiags :: "SILFunction \<Rightarrow> SILInstruction \<Rightarrow> error + Diagnostic list" where
  "returnDiags F I = emitted (diagnoseReturn F I emptyContext)"

text \<open>
  The classifier calls of a module in declaration order: function by function, block by
  block, instruction by instruction, and for each instruction the unreachable classifier
  before the return classifier.
\<close>

definition classifierCalls ::
  "SILFunction \<Rightarrow> SILInstruction \<Rightarrow> (error + Diagnostic list) list" where
  "classifierCalls Fn I = [unreachableDiags Fn I, returnDiags Fn I]"

definition instructionCalls ::
  "SILFunction \<Rightarrow> SILInstruction list \<Rightarrow> (error + Diagnostic list) list" where
  "instructionCalls Fn Is = concat (map (classifierCalls Fn) Is)"

definition blockCalls ::
  "SILFunction \<Rightarrow> SILBasicBlock list \<Rightarrow> (error + Diagnostic list) list" where
  "blockCalls Fn BBs = concat (map (\<lambda>BB. instructionCalls Fn (Insts BB)) BBs)"

definition functionCalls :: "SILFunction list \<Rightarrow> (error + Diagnostic list) list" where
  "functionCalls Fns = concat (map (\<lambda>Fn. blockCalls Fn (Blocks Fn)) Fns)"

text \<open>
  The reports of a sequence of calls, one after the other; a failed assertion ends the
  sequence.
\<close>

fun sequenceDiags :: "(error + Diagnostic list) list \<Rightarrow> error + Diagnostic list" where
  "sequenceDiags [] = Inr []"
| "sequenceDiags (r # rs) =
     (case r of
        Inl e \<Rightarrow> Inl e
      | Inr ds \<Rightarrow> (case sequenceDiags rs of Inl e \<Rightarrow> Inl e | Inr ds' \<Rightarrow> Inr (ds @ ds')))"

definition canonicalDiags :: "SILModule \<Rightarrow> error + Diagnostic list" where
  "canonicalDiags M = sequenceDiags (functionCalls (Functions M))"

definition appendDiags :: "ASTContext \<Rightarrow> error + Diagnostic list \<Rightarrow> error + ASTContext" where
  "appendDiags Context r =
     (case r of Inl e \<Rightarrow> Inl e | Inr ds \<Rightarrow> Inr (Context\<lparr>Diags := Diags Context @ ds\<rparr>))"

subsection \<open>A sample module\<close>

text \<open>
  Three declarations: \<open>f\<close> returns \<open>Int\<close>, \<open>g\<close> returns \<open>Int\<close> and is marked no-return,
  \<open>h\<close> returns nothing.
\<close>

definition ex_Int :: swift_type where
  "ex_Int = NominalType ''Int''"

definition ex_decl_f :: FuncDecl where
  "ex_decl_f = \<lparr>DeclName = ''f'', getResultType = ex_Int,
                 getFuncExprType = FunctionType (AnyFunctionType False)\<rparr>"

definition ex_decl_g :: FuncDecl where
  "ex_decl_g = \<lparr>DeclName = ''g'', getResultType = ex_Int,
                 getFuncExprType = FunctionType (AnyFunctionType True)\<rparr>"

definition ex_decl_h :: FuncDecl where
  "ex_decl_h = \<lparr>DeclName = ''h'', getResultType = EmptyTupleType,
                 getFuncExprType = FunctionType (AnyFunctionType False)\<rparr>"

text \<open>Instructions: each location spans from its \<open>getSourceLoc\<close> to its \<open>getEndSourceLoc\<close>.\<close>

definition ex_unreachable_f :: SILInstruction where
  "ex_unreachable_f = \<lparr>getKind = UnreachableInst,
     getLoc = \<lparr>ASTNodeOf = Some (FuncDeclNode ex_decl_f), LocKind = RegularLocation,
                getSourceLoc = 10, getEndSourceLoc = 50\<rparr>\<rparr>"

definition ex_unreachable_g :: SILInstruction where
  "ex_unreachable_g = \<lparr>getKind = UnreachableInst,
     getLoc = \<lparr>ASTNodeOf = Some (FuncDeclNode ex_decl_g), LocKind = RegularLocation,
                getSourceLoc = 55, getEndSourceLoc = 95\<rparr>\<rparr>"

definition ex_unreachable_h :: SILInstruction where
  "ex_unreachable_h = \<lparr>getKind = UnreachableInst,
     getLoc = \<lparr>ASTNodeOf = Some (FuncDeclNode ex_decl_h), LocKind = RegularLocation,
                getSourceLoc = 100, getEndSourceLoc = 140\<rparr>\<rparr>"

definition ex_unreachable_switch :: SILInstruction where
  "ex_unreachable_switch = \<lparr>getKind = UnreachableInst,
     getLoc = \<lparr>ASTNodeOf = Some SwitchStmtNode, LocKind = RegularLocation,
                getSourceLoc = 110, getEndSourceLoc = 130\<rparr>\<rparr>"

definition ex_unreachable_dce :: SILInstruction where
  "ex_unreachable_dce = \<lparr>getKind = UnreachableInst,
     getLoc = \<lparr>ASTNodeOf = None, LocKind = RegularLocation,
                getSourceLoc = 0, getEndSourceLoc = 0\<rparr>\<rparr>"

definition ex_return :: SILInstruction where
  "ex_return = \<lparr>getKind = ReturnInst,
     getLoc = \<lparr>ASTNodeOf = Some OtherNode, LocKind = ReturnLocation,
                getSourceLoc = 70, getEndSourceLoc = 78\<rparr>\<rparr>"

definition ex_branch_exit :: SILInstruction where
  "ex_branch_exit = \<lparr>getKind = BranchInst,
     getLoc = \<lparr>ASTNodeOf = Some OtherNode, LocKind = ImplicitReturnLocation,
                getSourceLoc = 85, getEndSourceLoc = 90\<rparr>\<rparr>"

definition ex_branch_loop :: SILInstruction where
  "ex_branch_loop = \<lparr>getKind = BranchInst,
     getLoc = \<lparr>ASTNodeOf = Some OtherNode, LocKind = RegularLocation,
                getSourceLoc = 60, getEndSourceLoc = 65\<rparr>\<rparr>"

definition ex_apply :: SILInstruction where
  "ex_apply = \<lparr>getKind = OtherInst,
     getLoc = \<lparr>ASTNodeOf = Some OtherNode, LocKind = ReturnLocation,
                getSourceLoc = 20, getEndSourceLoc = 30\<rparr>\<rparr>"

text \<open>
  Functions: \<open>f\<close> falls off its end; \<open>g\<close> loops, returns and leaves through an exit
  branch; \<open>h\<close> has a switch that misses a case; the closure has no \<open>FuncDecl\<close>.
\<close>

definition ex_fn_f :: SILFunction where
  "ex_fn_f = \<lparr>getLocation = getLoc ex_unreachable_f,
               Blocks = [\<lparr>Insts = [ex_apply, ex_unreachable_f]\<rparr>]\<rparr>"

definition ex_fn_g :: SILFunction where
  "ex_fn_g = \<lparr>getLocation = getLoc ex_unreachable_g,
               Blocks = [\<lparr>Insts = [ex_branch_loop]\<rparr>, \<lparr>Insts = [ex_return]\<rparr>,
                         \<lparr>Insts = [ex_branch_exit]\<rparr>, \<lparr>Insts = [ex_unreachable_g]\<rparr>]\<rparr>"

definition ex_fn_h :: SILFunction where
  "ex_fn_h = \<lparr>getLocation = getLoc ex_unreachable_h,
               Blocks = [\<lparr>Insts = [ex_unreachable_switch]\<rparr>, \<lparr>Insts = [ex_unreachable_h]\<rparr>]\<rparr>"

definition ex_closure :: SILFunction where
  "ex_closure = \<lparr>getLocation = \<lparr>ASTNodeOf = Some OtherNode, LocKind = RegularLocation,
                                  getSourceLoc = 200, getEndSourceLoc = 240\<rparr>,
                  Blocks = [\<lparr>Insts = [ex_unreachable_f, ex_unreachable_switch]\<rparr>,
                            \<lparr>Insts = [ex_unreachable_dce]\<rparr>, \<lparr>Insts = [ex_return]\<rparr>]\<rparr>"

definition ex_module :: SILModule where
  "ex_module = \<lparr>Functions = [ex_fn_f, ex_fn_g, ex_fn_h, ex_closure],
                 getASTContext = emptyContext\<rparr>"

section \<open>Properties\<close>

lemmas ex_defs =
  ex_Int_def ex_decl_f_def ex_decl_g_def ex_decl_h_def ex_unreachable_f_def
  ex_unreachable_g_def ex_unreachable_h_def ex_unreachable_switch_def
  ex_unreachable_dce_def ex_return_def ex_branch_exit_def ex_branch_loop_def ex_apply_def
  ex_fn_f_def ex_fn_g_def ex_fn_h_def ex_closure_def ex_module_def emptyContext_def

lemmas query_defs =
  isVoid_def castTo_AnyFunctionType_def hasASTLocation_def isASTNode_AbstractFunctionDecl_def
  isASTNode_SwitchStmt_def getAsASTNode_FuncDecl_def is_ReturnLocation_def
  is_ImplicitReturnLocation_def

lemmas classifier_defs =
  diagnoseUnreachable_def diagnoseMissingReturn_def diagnoseNonExhaustiveSwitch_def
  diagnoseReturn_def diagnose_def

subsection \<open>Single instructions\<close>

text \<open>
  C1: an unreachable instruction whose location wraps a function declaration, in a
  function whose own location resolves to a \<open>FuncDecl\<close> with a result type other than
  void and a function type not marked no-return, gets exactly one diagnostic:
  \<open>missing_return\<close> with that result type, at the end position of the instruction's
  location. The return classifier adds nothing for the instruction.
\<close>

theorem missing_return_emitted:
  assumes "getKind I = UnreachableInst"
    and "isASTNode_AbstractFunctionDecl (getLoc I)"
    and "getAsASTNode_FuncDecl (getLocation F) = Some FD"
    and "\<not> isVoid (getResultType FD)"
    and "getFuncExprType FD = FunctionType T"
    and "\<not> isNoReturn T"
  shows "visitInstruction F I Context =
           Inr (Context\<lparr>Diags := Diags Context @
                  [\<lparr>DiagLoc = getEndSourceLoc (getLoc I),
                    DiagID = missing_return (getResultType FD)\<rparr>]\<rparr>)"
proof -
  have "hasASTLocation (getLoc I)"
    using assms(2)
    by (simp add: isASTNode_AbstractFunctionDecl_def hasASTLocation_def split: option.splits)
  then have "diagnoseUnreachable F I Context =
           Inr (Context\<lparr>Diags := Diags Context @
                  [\<lparr>DiagLoc = getEndSourceLoc (getLoc I),
                    DiagID = missing_return (getResultType FD)\<rparr>]\<rparr>)"
    using assms by (simp add: classifier_defs castTo_AnyFunctionType_def)
  moreover have "diagnoseReturn F I C = Inr C" for C
    using assms(1) by (simp add: diagnoseReturn_def)
  ultimately show ?thesis
    by (simp add: visitInstruction_def)
qed

theorem missing_return_emitted_witness:
  "getKind ex_unreachable_f = UnreachableInst
   \<and> isASTNode_AbstractFunctionDecl (getLoc ex_unreachable_f)
   \<and> getAsASTNode_FuncDecl (getLocation ex_fn_f) = Some ex_decl_f
   \<and> \<not> isVoid (getResultType ex_decl_f)
   \<and> getFuncExprType ex_decl_f = FunctionType (AnyFunctionType False)
   \<and> \<not> isNoReturn (AnyFunctionType False)
   \<and> getSourceLoc (getLoc ex_unreachable_f) = 10
   \<and> visitInstruction ex_fn_f ex_unreachable_f emptyContext =
       Inr \<lparr>Diags = [\<lparr>DiagLoc = 50, DiagID = missing_return (NominalType ''Int'')\<rparr>]\<rparr>"
  using missing_return_emitted [of ex_unreachable_f ex_fn_f ex_decl_f "AnyFunctionType False"
      emptyContext]
  by (simp add: ex_defs query_defs)

text \<open>
  C2: in a function whose \<open>FuncDecl\<close> has a function type marked no-return, a branch or
  return instruction whose location is a \<open>ReturnLocation\<close> or an
  \<open>ImplicitReturnLocation\<close> gets exactly one \<open>return_from_noreturn\<close>, at the
  \<open>getSourceLoc\<close> of its location; an instruction of any kind whose location is of another
  kind gets nothing from the return classifier.
\<close>

theorem return_from_noreturn_emitted:
  assumes "getAsASTNode_FuncDecl (getLocation F) = Some FD"
    and "getFuncExprType FD = FunctionType T"
    and "isNoReturn T"
  shows "((getKind I = BranchInst \<or> getKind I = ReturnInst)
          \<and> (is_ReturnLocation (getLoc I) \<or> is_ImplicitReturnLocation (getLoc I))
          \<longrightarrow> diagnoseReturn F I Context =
                Inr (Context\<lparr>Diags := Diags Context @
                       [\<lparr>DiagLoc = getSourceLoc (getLoc I), DiagID = return_from_noreturn\<rparr>]\<rparr>)
            \<and> visitInstruction F I Context =
                Inr (Context\<lparr>Diags := Diags Context @
                       [\<lparr>DiagLoc = getSourceLoc (getLoc I), DiagID = return_from_noreturn\<rparr>]\<rparr>))
       \<and> (\<not> is_ReturnLocation (getLoc I) \<and> \<not> is_ImplicitReturnLocation (getLoc I)
          \<longrightarrow> diagnoseReturn F I Context = Inr Context)"
  using assms
  by (auto simp add: diagnoseReturn_def diagnoseUnreachable_def visitInstruction_def
      diagnose_def castTo_AnyFunctionType_def is_ReturnLocation_def
      is_ImplicitReturnLocation_def)

theorem return_from_noreturn_emitted_witness:
  "getAsASTNode_FuncDecl (getLocation ex_fn_g) = Some ex_decl_g
   \<and> getFuncExprType ex_decl_g = FunctionType (AnyFunctionType True)
   \<and> isNoReturn (AnyFunctionType True)
   \<and> getKind ex_return = ReturnInst \<and> is_ReturnLocation (getLoc ex_return)
   \<and> visitInstruction ex_fn_g ex_return emptyContext =
       Inr \<lparr>Diags = [\<lparr>DiagLoc = 70, DiagID = return_from_noreturn\<rparr>]\<rparr>
   \<and> getKind ex_branch_exit = BranchInst \<and> is_ImplicitReturnLocation (getLoc ex_branch_exit)
   \<and> visitInstruction ex_fn_g ex_branch_exit emptyContext =
       Inr \<lparr>Diags = [\<lparr>DiagLoc = 85, DiagID = return_from_noreturn\<rparr>]\<rparr>
   \<and> getKind ex_branch_loop = BranchInst
   \<and> \<not> is_ReturnLocation (getLoc ex_branch_loop)
   \<and> \<not> is_ImplicitReturnLocation (getLoc ex_branch_loop)
   \<and> diagnoseReturn ex_fn_g ex_branch_loop emptyContext = Inr emptyContext"
  using return_from_noreturn_emitted [of ex_fn_g ex_decl_g "AnyFunctionType True" ex_return
      emptyContext]
    return_from_noreturn_emitted [of ex_fn_g ex_decl_g "AnyFunctionType True" ex_branch_exit
      emptyContext]
    return_from_noreturn_emitted [of ex_fn_g ex_decl_g "AnyFunctionType True" ex_branch_loop
      emptyContext]
  by (simp add: ex_defs query_defs)

text \<open>
  C3: in a function whose \<open>FuncDecl\<close> has the void result type, and in one whose function
  type is marked no-return, the missing-return path emits nothing, also for an
  unreachable instruction whose location wraps the function's own declaration; all the
  unreachable classifier can add there is \<open>non_exhaustive_switch\<close>, so no
  \<open>missing_return\<close> is emitted.
\<close>

theorem no_missing_return_for_void_or_noreturn:
  assumes "getAsASTNode_FuncDecl (getLocation F) = Some FD"
    and "isVoid (getResultType FD)
         \<or> (\<exists>T. getFuncExprType FD = FunctionType T \<and> isNoReturn T)"
  shows "diagnoseMissingReturn F I Context = Inr Context
       \<and> diagnoseUnreachable F I Context =
           (if getKind I = UnreachableInst \<and> isASTNode_SwitchStmt (getLoc I)
            then Inr (Context\<lparr>Diags := Diags Context @
                        [\<lparr>DiagLoc = getEndSourceLoc (getLoc I),
                          DiagID = non_exhaustive_switch\<rparr>]\<rparr>)
            else Inr Context)"
proof -
  have mr: "diagnoseMissingReturn F I C = Inr C" for C
    using assms by (auto simp add: diagnoseMissingReturn_def castTo_AnyFunctionType_def Let_def)
  have "isASTNode_SwitchStmt L \<Longrightarrow> hasASTLocation L \<and> \<not> isASTNode_AbstractFunctionDecl L" for L
    by (cases "ASTNodeOf L"; cases "the (ASTNodeOf L)")
      (simp_all add: isASTNode_SwitchStmt_def hasASTLocation_def
        isASTNode_AbstractFunctionDecl_def)
  then show ?thesis
    using mr
    by (simp add: diagnoseUnreachable_def diagnoseNonExhaustiveSwitch_def diagnose_def Let_def)
qed

theorem no_missing_return_for_void_or_noreturn_witness:
  "getAsASTNode_FuncDecl (getLocation ex_fn_h) = Some ex_decl_h
   \<and> isVoid (getResultType ex_decl_h)
   \<and> diagnoseUnreachable ex_fn_h ex_unreachable_h emptyContext = Inr emptyContext
   \<and> getAsASTNode_FuncDecl (getLocation ex_fn_g) = Some ex_decl_g
   \<and> getFuncExprType ex_decl_g = FunctionType (AnyFunctionType True)
   \<and> isNoReturn (AnyFunctionType True) \<and> \<not> isVoid (getResultType ex_decl_g)
   \<and> diagnoseUnreachable ex_fn_g ex_unreachable_g emptyContext = Inr emptyContext"
  using no_missing_return_for_void_or_noreturn [of ex_fn_h ex_decl_h ex_unreachable_h
      emptyContext]
    no_missing_return_for_void_or_noreturn [of ex_fn_g ex_decl_g ex_unreachable_g emptyContext]
  by (simp add: ex_defs query_defs)

text \<open>
  C4: an unreachable instruction whose location wraps a switch statement gets exactly one
  diagnostic, \<open>non_exhaustive_switch\<close> at the end position of its location, in every
  function, whatever the function's declaration, result type or no-return mark.
\<close>

theorem non_exhaustive_switch_emitted:
  assumes "getKind I = UnreachableInst"
    and "ASTNodeOf (getLoc I) = Some SwitchStmtNode"
  shows "visitInstruction F I Context =
           Inr (Context\<lparr>Diags := Diags Context @
                  [\<lparr>DiagLoc = getEndSourceLoc (getLoc I), DiagID = non_exhaustive_switch\<rparr>]\<rparr>)"
  using assms
  by (simp add: visitInstruction_def diagnoseUnreachable_def diagnoseNonExhaustiveSwitch_def
      diagnoseReturn_def diagnose_def hasASTLocation_def isASTNode_AbstractFunctionDecl_def
      isASTNode_SwitchStmt_def)

theorem non_exhaustive_switch_emitted_witness:
  "getKind ex_unreachable_switch = UnreachableInst
   \<and> ASTNodeOf (getLoc ex_unreachable_switch) = Some SwitchStmtNode
   \<and> getSourceLoc (getLoc ex_unreachable_switch) = 110
   \<and> visitInstruction ex_fn_h ex_unreachable_switch emptyContext =
       Inr \<lparr>Diags = [\<lparr>DiagLoc = 130, DiagID = non_exhaustive_switch\<rparr>]\<rparr>
   \<and> visitInstruction ex_fn_g ex_unreachable_switch emptyContext =
       Inr \<lparr>Diags = [\<lparr>DiagLoc = 130, DiagID = non_exhaustive_switch\<rparr>]\<rparr>
   \<and> visitInstruction ex_closure ex_unreachable_switch emptyContext =
       Inr \<lparr>Diags = [\<lparr>DiagLoc = 130, DiagID = non_exhaustive_switch\<rparr>]\<rparr>"
  using non_exhaustive_switch_emitted [of ex_unreachable_switch ex_fn_h emptyContext]
    non_exhaustive_switch_emitted [of ex_unreachable_switch ex_fn_g emptyContext]
    non_exhaustive_switch_emitted [of ex_unreachable_switch ex_closure emptyContext]
  by (simp add: ex_unreachable_switch_def emptyContext_def)

text \<open>
  C5: an unreachable instruction whose location wraps no AST node gets no diagnostic from
  either classifier, and neither classifier fails on it: the context comes back as it
  was.
\<close>

theorem unreachable_without_location_silent:
  assumes "getKind I = UnreachableInst" and "ASTNodeOf (getLoc I) = None"
  shows "diagnoseUnreachable F I Context = Inr Context
       \<and> diagnoseReturn F I Context = Inr Context
       \<and> visitInstruction F I Context = Inr Context"
  using assms
  by (simp add: diagnoseUnreachable_def diagnoseReturn_def visitInstruction_def
      hasASTLocation_def)

theorem unreachable_without_location_silent_witness:
  "getKind ex_unreachable_dce = UnreachableInst
   \<and> ASTNodeOf (getLoc ex_unreachable_dce) = None
   \<and> visitInstruction ex_fn_f ex_unreachable_dce emptyContext = Inr emptyContext"
  using unreachable_without_location_silent [of ex_unreachable_dce ex_fn_f emptyContext]
  by (simp add: ex_unreachable_dce_def)

text \<open>
  C9: what an instruction can be diagnosed with is fixed by its kind. An unreachable
  instruction gets nothing from the return classifier, and from the unreachable classifier
  only \<open>missing_return\<close> or \<open>non_exhaustive_switch\<close>; a branch or return instruction gets
  nothing from the unreachable classifier, and from the return classifier only
  \<open>return_from_noreturn\<close>; an instruction of any other kind gets nothing from either.
\<close>

theorem diagnostic_classes_by_instruction_kind:
  "(getKind I = UnreachableInst \<longrightarrow>
      diagnoseReturn F I Context = Inr Context
      \<and> (\<forall>Context'. diagnoseUnreachable F I Context = Inr Context' \<longrightarrow>
            (\<exists>ds. Context' = Context\<lparr>Diags := Diags Context @ ds\<rparr>
                  \<and> (\<forall>d \<in> set ds. DiagID d = non_exhaustive_switch
                                    \<or> (\<exists>ty. DiagID d = missing_return ty)))))
   \<and> (getKind I = BranchInst \<or> getKind I = ReturnInst \<longrightarrow>
      diagnoseUnreachable F I Context = Inr Context
      \<and> (\<forall>Context'. diagnoseReturn F I Context = Inr Context' \<longrightarrow>
            (\<exists>ds. Context' = Context\<lparr>Diags := Diags Context @ ds\<rparr>
                  \<and> (\<forall>d \<in> set ds. DiagID d = return_from_noreturn))))
   \<and> (getKind I = OtherTermInst \<or> getKind I = OtherInst \<longrightarrow>
      diagnoseUnreachable F I Context = Inr Context
      \<and> diagnoseReturn F I Context = Inr Context)"
proof (intro conjI impI allI)
  fix Context'
  assume "getKind I = UnreachableInst"
    and run: "diagnoseUnreachable F I Context = Inr Context'"
  have "Context' = Context\<lparr>Diags := Diags Context @ []\<rparr>
      \<or> Context' = Context\<lparr>Diags := Diags Context @
           [\<lparr>DiagLoc = getEndSourceLoc (getLoc I), DiagID = non_exhaustive_switch\<rparr>]\<rparr>
      \<or> (\<exists>ty. Context' = Context\<lparr>Diags := Diags Context @
           [\<lparr>DiagLoc = getEndSourceLoc (getLoc I), DiagID = missing_return ty\<rparr>]\<rparr>)"
    using run
    by (auto simp add: classifier_defs Let_def split: if_splits option.splits sum.splits)
  then show "\<exists>ds. Context' = Context\<lparr>Diags := Diags Context @ ds\<rparr>
                  \<and> (\<forall>d \<in> set ds. DiagID d = non_exhaustive_switch
                                    \<or> (\<exists>ty. DiagID d = missing_return ty))"
    (is ?thesis)
  proof (elim disjE exE)
    assume "Context' = Context\<lparr>Diags := Diags Context @ []\<rparr>"
    then show ?thesis by (intro exI [of _ "[]"]) simp
  next
    assume "Context' = Context\<lparr>Diags := Diags Context @
           [\<lparr>DiagLoc = getEndSourceLoc (getLoc I), DiagID = non_exhaustive_switch\<rparr>]\<rparr>"
    then show ?thesis
      by (intro exI [of _ "[\<lparr>DiagLoc = getEndSourceLoc (getLoc I),
                              DiagID = non_exhaustive_switch\<rparr>]"]) simp
  next
    fix ty
    assume "Context' = Context\<lparr>Diags := Diags Context @
           [\<lparr>DiagLoc = getEndSourceLoc (getLoc I), DiagID = missing_return ty\<rparr>]\<rparr>"
    then show ?thesis
      by (intro exI [of _ "[\<lparr>DiagLoc = getEndSourceLoc (getLoc I),
                              DiagID = missing_return ty\<rparr>]"]) simp
  qed
next
  fix Context'
  assume "getKind I = BranchInst \<or> getKind I = ReturnInst"
    and run: "diagnoseReturn F I Context = Inr Context'"
  have "Context' = Context\<lparr>Diags := Diags Context @ []\<rparr>
      \<or> Context' = Context\<lparr>Diags := Diags Context @
           [\<lparr>DiagLoc = getSourceLoc (getLoc I), DiagID = return_from_noreturn\<rparr>]\<rparr>"
    using run
    by (auto simp add: diagnoseReturn_def diagnose_def is_ReturnLocation_def
        is_ImplicitReturnLocation_def Let_def split: if_splits option.splits sum.splits)
  then show "\<exists>ds. Context' = Context\<lparr>Diags := Diags Context @ ds\<rparr>
                  \<and> (\<forall>d \<in> set ds. DiagID d = return_from_noreturn)"
    (is ?thesis)
  proof (elim disjE)
    assume "Context' = Context\<lparr>Diags := Diags Context @ []\<rparr>"
    then show ?thesis by (intro exI [of _ "[]"]) simp
  next
    assume "Context' = Context\<lparr>Diags := Diags Context @
           [\<lparr>DiagLoc = getSourceLoc (getLoc I), DiagID = return_from_noreturn\<rparr>]\<rparr>"
    then show ?thesis
      by (intro exI [of _ "[\<lparr>DiagLoc = getSourceLoc (getLoc I),
                              DiagID = return_from_noreturn\<rparr>]"]) simp
  qed
qed (auto simp add: diagnoseReturn_def diagnoseUnreachable_def)

theorem diagnostic_classes_by_instruction_kind_witness:
  "getKind ex_unreachable_f = UnreachableInst
   \<and> diagnoseReturn ex_fn_f ex_unreachable_f emptyContext = Inr emptyContext
   \<and> getKind ex_return = ReturnInst
   \<and> diagnoseUnreachable ex_fn_g ex_return emptyContext = Inr emptyContext
   \<and> getKind ex_apply = OtherInst
   \<and> is_ReturnLocation (getLoc ex_apply)
   \<and> diagnoseUnreachable ex_fn_g ex_apply emptyContext = Inr emptyContext
   \<and> diagnoseReturn ex_fn_g ex_apply emptyContext = Inr emptyContext"
  using diagnostic_classes_by_instruction_kind [of ex_unreachable_f ex_fn_f emptyContext]
    diagnostic_classes_by_instruction_kind [of ex_return ex_fn_g emptyContext]
    diagnostic_classes_by_instruction_kind [of ex_apply ex_fn_g emptyContext]
  by (simp add: ex_unreachable_f_def ex_return_def ex_apply_def is_ReturnLocation_def)

text \<open>
  C10: for an unreachable instruction whose location wraps any function declaration, the
  unreachable classifier takes the missing-return path whatever the enclosing function
  is, and that path decides from the enclosing function's own location alone: nothing is
  emitted when that location does not resolve to a \<open>FuncDecl\<close>, and otherwise the void
  test, the no-return test and the reported result type are those of the \<open>FuncDecl\<close> the
  function's location resolves to, whichever declaration the instruction's location
  wraps.
\<close>

theorem missing_return_governed_by_enclosing_function:
  assumes "getKind I = UnreachableInst"
    and "ASTNodeOf (getLoc I) = Some n"
    and "isa_AbstractFunctionDecl n"
  shows "diagnoseUnreachable F I Context = diagnoseMissingReturn F I Context
       \<and> (getAsASTNode_FuncDecl (getLocation F) = None \<longrightarrow>
            diagnoseUnreachable F I Context = Inr Context)
       \<and> (\<forall>FD. getAsASTNode_FuncDecl (getLocation F) = Some FD \<longrightarrow>
            diagnoseUnreachable F I Context =
              (if isVoid (getResultType FD) then Inr Context
               else case castTo_AnyFunctionType (getFuncExprType FD) of
                      Inl e \<Rightarrow> Inl e
                    | Inr T \<Rightarrow>
                        if isNoReturn T then Inr Context
                        else Inr (Context\<lparr>Diags := Diags Context @
                                    [\<lparr>DiagLoc = getEndSourceLoc (getLoc I),
                                      DiagID = missing_return (getResultType FD)\<rparr>]\<rparr>)))"
proof -
  have dispatch: "diagnoseUnreachable F I Context = diagnoseMissingReturn F I Context"
    using assms
    by (simp add: diagnoseUnreachable_def hasASTLocation_def isASTNode_AbstractFunctionDecl_def)
  have "hasASTLocation (getLoc I)"
    using assms(2) by (simp add: hasASTLocation_def)
  then show ?thesis
    unfolding dispatch
    by (simp add: diagnoseMissingReturn_def diagnose_def Let_def split: sum.splits)
qed

theorem missing_return_governed_by_enclosing_function_witness:
  "getKind ex_unreachable_h = UnreachableInst
   \<and> ASTNodeOf (getLoc ex_unreachable_h) = Some (FuncDeclNode ex_decl_h)
   \<and> isa_AbstractFunctionDecl (FuncDeclNode ex_decl_h)
   \<and> isVoid (getResultType ex_decl_h)
   \<and> getAsASTNode_FuncDecl (getLocation ex_fn_f) = Some ex_decl_f
   \<and> diagnoseUnreachable ex_fn_f ex_unreachable_h emptyContext =
       Inr \<lparr>Diags = [\<lparr>DiagLoc = 140, DiagID = missing_return (NominalType ''Int'')\<rparr>]\<rparr>
   \<and> getKind ex_unreachable_f = UnreachableInst
   \<and> ASTNodeOf (getLoc ex_unreachable_f) = Some (FuncDeclNode ex_decl_f)
   \<and> getAsASTNode_FuncDecl (getLocation ex_fn_h) = Some ex_decl_h
   \<and> diagnoseUnreachable ex_fn_h ex_unreachable_f emptyContext = Inr emptyContext
   \<and> getAsASTNode_FuncDecl (getLocation ex_closure) = None
   \<and> diagnoseUnreachable ex_closure ex_unreachable_f emptyContext = Inr emptyContext"
  using missing_return_governed_by_enclosing_function [of ex_unreachable_h
      "FuncDeclNode ex_decl_h" ex_fn_f emptyContext, THEN conjunct2]
    missing_return_governed_by_enclosing_function [of ex_unreachable_f
      "FuncDeclNode ex_decl_f" ex_fn_h emptyContext, THEN conjunct2]
    missing_return_governed_by_enclosing_function [of ex_unreachable_f
      "FuncDeclNode ex_decl_f" ex_closure emptyContext, THEN conjunct2]
  by (simp add: ex_defs query_defs)

subsection \<open>The traversal\<close>

text \<open>
  Each classifier appends what it reports to the context it is given, and fails or not
  whatever that context holds.
\<close>

lemma diagnoseUnreachable_appends:
  "diagnoseUnreachable F I Context = appendDiags Context (unreachableDiags F I)"
  by (simp add: diagnoseUnreachable_def diagnoseMissingReturn_def diagnoseNonExhaustiveSwitch_def
      unreachableDiags_def emitted_def appendDiags_def emptyContext_def diagnose_def Let_def
      split: option.splits sum.splits)

lemma diagnoseReturn_appends:
  "diagnoseReturn F I Context = appendDiags Context (returnDiags F I)"
  by (simp add: diagnoseReturn_def returnDiags_def emitted_def appendDiags_def emptyContext_def
      diagnose_def Let_def split: option.splits sum.splits)

lemma appendDiags_sequence_append:
  "appendDiags Context (sequenceDiags (rs @ rs')) =
     (case appendDiags Context (sequenceDiags rs) of
        Inl e \<Rightarrow> Inl e
      | Inr Context1 \<Rightarrow> appendDiags Context1 (sequenceDiags rs'))"
proof (induction rs arbitrary: Context)
  case Nil
  show ?case by (simp add: appendDiags_def)
next
  case (Cons r rs)
  show ?case
  proof (cases r)
    case (Inl e)
    then show ?thesis by (simp add: appendDiags_def)
  next
    case (Inr ds)
    have "appendDiags Context (sequenceDiags (r # rs @ rs')) =
          (case appendDiags (Context\<lparr>Diags := Diags Context @ ds\<rparr>) (sequenceDiags (rs @ rs')) of
             Inl e \<Rightarrow> Inl e | Inr C \<Rightarrow> Inr C)"
      using Inr by (simp add: appendDiags_def split: sum.splits)
    also have "\<dots> = (case appendDiags (Context\<lparr>Diags := Diags Context @ ds\<rparr>) (sequenceDiags rs) of
             Inl e \<Rightarrow> Inl e | Inr C1 \<Rightarrow> appendDiags C1 (sequenceDiags rs'))"
      by (simp add: Cons.IH split: sum.splits)
    also have "\<dots> = (case appendDiags Context (sequenceDiags (r # rs)) of
        Inl e \<Rightarrow> Inl e
      | Inr Context1 \<Rightarrow> appendDiags Context1 (sequenceDiags rs'))"
      using Inr by (simp add: appendDiags_def split: sum.splits)
    finally show ?thesis by simp
  qed
qed

lemma bind_appends:
  assumes "\<And>C. A C = appendDiags C (sequenceDiags rs)"
    and "\<And>C. B C = appendDiags C (sequenceDiags rs')"
  shows "(case A Context of Inl e \<Rightarrow> Inl e | Inr Context1 \<Rightarrow> B Context1) =
         appendDiags Context (sequenceDiags (rs @ rs'))"
  by (simp only: assms appendDiags_sequence_append)

lemma visitInstruction_appends:
  "visitInstruction Fn I Context = appendDiags Context (sequenceDiags (classifierCalls Fn I))"
  by (simp add: visitInstruction_def diagnoseUnreachable_appends diagnoseReturn_appends
      classifierCalls_def appendDiags_def split: sum.splits)

lemma visitInstructions_appends:
  "visitInstructions Fn Is Context = appendDiags Context (sequenceDiags (instructionCalls Fn Is))"
proof (induction Is arbitrary: Context)
  case Nil
  show ?case by (simp add: appendDiags_def instructionCalls_def)
next
  case (Cons I Is)
  have "visitInstructions Fn (I # Is) Context =
        appendDiags Context (sequenceDiags (classifierCalls Fn I @ instructionCalls Fn Is))"
    unfolding visitInstructions.simps
    by (rule bind_appends) (rule visitInstruction_appends, rule Cons.IH)
  then show ?case by (simp add: instructionCalls_def)
qed

lemma visitBlocks_appends:
  "visitBlocks Fn BBs Context = appendDiags Context (sequenceDiags (blockCalls Fn BBs))"
proof (induction BBs arbitrary: Context)
  case Nil
  show ?case by (simp add: appendDiags_def blockCalls_def)
next
  case (Cons BB BBs)
  have "visitBlocks Fn (BB # BBs) Context =
        appendDiags Context (sequenceDiags (instructionCalls Fn (Insts BB) @ blockCalls Fn BBs))"
    unfolding visitBlocks.simps
    by (rule bind_appends) (rule visitInstructions_appends, rule Cons.IH)
  then show ?case by (simp add: blockCalls_def)
qed

lemma visitFunctions_appends:
  "visitFunctions Fns Context = appendDiags Context (sequenceDiags (functionCalls Fns))"
proof (induction Fns arbitrary: Context)
  case Nil
  show ?case by (simp add: appendDiags_def functionCalls_def)
next
  case (Cons Fn Fns)
  have "visitFunctions (Fn # Fns) Context =
        appendDiags Context (sequenceDiags (blockCalls Fn (Blocks Fn) @ functionCalls Fns))"
    unfolding visitFunctions.simps
    by (rule bind_appends) (rule visitBlocks_appends, rule Cons.IH)
  then show ?case by (simp add: functionCalls_def)
qed

text \<open>
  C7: the pass hands the diagnostic engine the reports of the classifier calls in
  declaration order of the module's functions, of each function's blocks and of each
  block's instructions, the unreachable classifier before the return classifier on each
  instruction, after the diagnostics the engine already held; it fails exactly when one
  of these calls fails.
\<close>

theorem diagnostics_in_declaration_order:
  "emitSILDataflowDiagnostics M =
     (case canonicalDiags M of
        Inl e \<Rightarrow> Inl e
      | Inr ds \<Rightarrow>
          Inr (M\<lparr>getASTContext :=
                   (getASTContext M)\<lparr>Diags := Diags (getASTContext M) @ ds\<rparr>\<rparr>))"
  by (simp add: emitSILDataflowDiagnostics_def visitFunctions_appends canonicalDiags_def
      appendDiags_def split: sum.splits)

theorem diagnostics_in_declaration_order_witness:
  "canonicalDiags ex_module =
     Inr [\<lparr>DiagLoc = 50, DiagID = missing_return (NominalType ''Int'')\<rparr>,
          \<lparr>DiagLoc = 70, DiagID = return_from_noreturn\<rparr>,
          \<lparr>DiagLoc = 85, DiagID = return_from_noreturn\<rparr>,
          \<lparr>DiagLoc = 130, DiagID = non_exhaustive_switch\<rparr>,
          \<lparr>DiagLoc = 130, DiagID = non_exhaustive_switch\<rparr>]
   \<and> emitSILDataflowDiagnostics ex_module =
     Inr (ex_module\<lparr>getASTContext :=
       \<lparr>Diags = [\<lparr>DiagLoc = 50, DiagID = missing_return (NominalType ''Int'')\<rparr>,
                  \<lparr>DiagLoc = 70, DiagID = return_from_noreturn\<rparr>,
                  \<lparr>DiagLoc = 85, DiagID = return_from_noreturn\<rparr>,
                  \<lparr>DiagLoc = 130, DiagID = non_exhaustive_switch\<rparr>,
                  \<lparr>DiagLoc = 130, DiagID = non_exhaustive_switch\<rparr>]\<rparr>\<rparr>)"
proof -
  have calls: "canonicalDiags ex_module =
     Inr [\<lparr>DiagLoc = 50, DiagID = missing_return (NominalType ''Int'')\<rparr>,
          \<lparr>DiagLoc = 70, DiagID = return_from_noreturn\<rparr>,
          \<lparr>DiagLoc = 85, DiagID = return_from_noreturn\<rparr>,
          \<lparr>DiagLoc = 130, DiagID = non_exhaustive_switch\<rparr>,
          \<lparr>DiagLoc = 130, DiagID = non_exhaustive_switch\<rparr>]"
    by (simp add: canonicalDiags_def functionCalls_def blockCalls_def instructionCalls_def
        classifierCalls_def unreachableDiags_def returnDiags_def emitted_def classifier_defs
        query_defs ex_defs)
  show ?thesis
    using diagnostics_in_declaration_order [of ex_module]
    unfolding calls
    by (simp add: ex_module_def emptyContext_def)
qed

text \<open>
  C8: a run that returns gives back the module with the same functions (hence the same
  blocks, instructions and locations) and a context that differs only in the diagnostics
  appended to the engine's list; a run that does not return has stopped at a failed
  assertion.
\<close>

theorem pass_changes_only_diagnostics:
  "emitSILDataflowDiagnostics M = Inl AssertionFailure
   \<or> (\<exists>M' ds. emitSILDataflowDiagnostics M = Inr M'
             \<and> Functions M' = Functions M
             \<and> getASTContext M' =
                 (getASTContext M)\<lparr>Diags := Diags (getASTContext M) @ ds\<rparr>)"
proof (cases "sequenceDiags (functionCalls (Functions M))")
  case (Inl e)
  then have "emitSILDataflowDiagnostics M = Inl e"
    by (simp add: emitSILDataflowDiagnostics_def visitFunctions_appends appendDiags_def)
  then show ?thesis by (cases e) simp
next
  case (Inr ds)
  then have "emitSILDataflowDiagnostics M =
      Inr (M\<lparr>getASTContext := (getASTContext M)\<lparr>Diags := Diags (getASTContext M) @ ds\<rparr>\<rparr>)"
    by (simp add: emitSILDataflowDiagnostics_def visitFunctions_appends appendDiags_def)
  then show ?thesis by (intro disjI2 exI [of _ ds] exI [of _ "M\<lparr>getASTContext :=
      (getASTContext M)\<lparr>Diags := Diags (getASTContext M) @ ds\<rparr>\<rparr>"]) simp
qed

theorem pass_changes_only_diagnostics_witness:
  "\<exists>M' ds. emitSILDataflowDiagnostics ex_module = Inr M'
         \<and> Functions M' = [ex_fn_f, ex_fn_g, ex_fn_h, ex_closure]
         \<and> getASTContext M' = \<lparr>Diags = ds\<rparr>"
proof -
  have "emitSILDataflowDiagnostics ex_module \<noteq> Inl AssertionFailure"
    by (simp add: emitSILDataflowDiagnostics_def visitInstruction_def classifier_defs
        query_defs ex_defs)
  then show ?thesis
    using pass_changes_only_diagnostics [of ex_module]
    by (simp add: ex_module_def emptyContext_def)
qed

text \<open>
  In a function whose own location does not resolve to a \<open>FuncDecl\<close>, all the traversal
  can emit is \<open>non_exhaustive_switch\<close>.
\<close>

lemma unresolved_visitInstruction:
  assumes "getAsASTNode_FuncDecl (getLocation F) = None"
  shows "\<exists>ds. visitInstruction F I Context = Inr (Context\<lparr>Diags := Diags Context @ ds\<rparr>)
            \<and> (\<forall>d \<in> set ds. DiagID d = non_exhaustive_switch)"
proof -
  have ret: "diagnoseReturn F I C = Inr C" for C
    using assms by (simp add: diagnoseReturn_def)
  have "diagnoseUnreachable F I Context = Inr (Context\<lparr>Diags := Diags Context @ []\<rparr>)
      \<or> diagnoseUnreachable F I Context = Inr (Context\<lparr>Diags := Diags Context @
           [\<lparr>DiagLoc = getEndSourceLoc (getLoc I), DiagID = non_exhaustive_switch\<rparr>]\<rparr>)"
    using assms by (simp add: classifier_defs Let_def)
  then show ?thesis
  proof
    assume "diagnoseUnreachable F I Context = Inr (Context\<lparr>Diags := Diags Context @ []\<rparr>)"
    then show ?thesis
      by (intro exI [of _ "[]"]) (simp add: visitInstruction_def ret)
  next
    assume "diagnoseUnreachable F I Context = Inr (Context\<lparr>Diags := Diags Context @
           [\<lparr>DiagLoc = getEndSourceLoc (getLoc I), DiagID = non_exhaustive_switch\<rparr>]\<rparr>)"
    then show ?thesis
      by (intro exI [of _ "[\<lparr>DiagLoc = getEndSourceLoc (getLoc I),
                              DiagID = non_exhaustive_switch\<rparr>]"])
        (simp add: visitInstruction_def ret)
  qed
qed

lemma unresolved_visitInstructions:
  assumes "getAsASTNode_FuncDecl (getLocation F) = None"
  shows "\<exists>ds. visitInstructions F Is Context = Inr (Context\<lparr>Diags := Diags Context @ ds\<rparr>)
            \<and> (\<forall>d \<in> set ds. DiagID d = non_exhaustive_switch)"
proof (induction Is arbitrary: Context)
  case Nil
  show ?case by (intro exI [of _ "[]"]) simp
next
  case (Cons I Is)
  obtain ds1 where first:
    "visitInstruction F I Context = Inr (Context\<lparr>Diags := Diags Context @ ds1\<rparr>)"
    "\<forall>d \<in> set ds1. DiagID d = non_exhaustive_switch"
    using unresolved_visitInstruction [OF assms] by blast
  obtain ds2 where rest:
    "visitInstructions F Is (Context\<lparr>Diags := Diags Context @ ds1\<rparr>) =
       Inr (Context\<lparr>Diags := Diags Context @ ds1 @ ds2\<rparr>)"
    "\<forall>d \<in> set ds2. DiagID d = non_exhaustive_switch"
    using Cons.IH [of "Context\<lparr>Diags := Diags Context @ ds1\<rparr>"] by auto
  show ?case
    using first rest by (intro exI [of _ "ds1 @ ds2"]) auto
qed

lemma unresolved_visitBlocks:
  assumes "getAsASTNode_FuncDecl (getLocation F) = None"
  shows "\<exists>ds. visitBlocks F BBs Context = Inr (Context\<lparr>Diags := Diags Context @ ds\<rparr>)
            \<and> (\<forall>d \<in> set ds. DiagID d = non_exhaustive_switch)"
proof (induction BBs arbitrary: Context)
  case Nil
  show ?case by (intro exI [of _ "[]"]) simp
next
  case (Cons BB BBs)
  obtain ds1 where first:
    "visitInstructions F (Insts BB) Context = Inr (Context\<lparr>Diags := Diags Context @ ds1\<rparr>)"
    "\<forall>d \<in> set ds1. DiagID d = non_exhaustive_switch"
    using unresolved_visitInstructions [OF assms] by blast
  obtain ds2 where rest:
    "visitBlocks F BBs (Context\<lparr>Diags := Diags Context @ ds1\<rparr>) =
       Inr (Context\<lparr>Diags := Diags Context @ ds1 @ ds2\<rparr>)"
    "\<forall>d \<in> set ds2. DiagID d = non_exhaustive_switch"
    using Cons.IH [of "Context\<lparr>Diags := Diags Context @ ds1\<rparr>"] by auto
  show ?case
    using first rest by (intro exI [of _ "ds1 @ ds2"]) auto
qed

text \<open>
  C6: in a function whose own location does not resolve to a \<open>FuncDecl\<close>, the return
  classifier and the missing-return path of the unreachable classifier give the context
  back unchanged for every instruction, and the traversal of the function's blocks
  returns without failing, having emitted no \<open>missing_return\<close> and no
  \<open>return_from_noreturn\<close>. The unreachable classifier itself does not skip every
  instruction there: an unreachable instruction whose location wraps a switch statement
  still gets \<open>non_exhaustive_switch\<close> at the end position of its location, and that is
  all the classifier emits in such a function.
\<close>

theorem unresolved_function_only_switch_diagnostics:
  assumes "getAsASTNode_FuncDecl (getLocation F) = None"
  shows "diagnoseMissingReturn F I Context = Inr Context
       \<and> diagnoseReturn F I Context = Inr Context
       \<and> diagnoseUnreachable F I Context =
           (if getKind I = UnreachableInst \<and> isASTNode_SwitchStmt (getLoc I)
            then Inr (Context\<lparr>Diags := Diags Context @
                        [\<lparr>DiagLoc = getEndSourceLoc (getLoc I),
                          DiagID = non_exhaustive_switch\<rparr>]\<rparr>)
            else Inr Context)
       \<and> (\<exists>ds. visitBlocks F BBs Context = Inr (Context\<lparr>Diags := Diags Context @ ds\<rparr>)
               \<and> (\<forall>d \<in> set ds. DiagID d \<noteq> return_from_noreturn
                                 \<and> (\<forall>ty. DiagID d \<noteq> missing_return ty)))"
proof -
  obtain ds where
    "visitBlocks F BBs Context = Inr (Context\<lparr>Diags := Diags Context @ ds\<rparr>)"
    "\<forall>d \<in> set ds. DiagID d = non_exhaustive_switch"
    using unresolved_visitBlocks [OF assms] by blast
  then have blocks:
    "\<exists>ds. visitBlocks F BBs Context = Inr (Context\<lparr>Diags := Diags Context @ ds\<rparr>)
               \<and> (\<forall>d \<in> set ds. DiagID d \<noteq> return_from_noreturn
                                 \<and> (\<forall>ty. DiagID d \<noteq> missing_return ty))"
    by (intro exI [of _ ds]) simp
  have mr: "diagnoseMissingReturn F I C = Inr C" for C
    using assms by (simp add: diagnoseMissingReturn_def)
  have "isASTNode_SwitchStmt L \<Longrightarrow> hasASTLocation L \<and> \<not> isASTNode_AbstractFunctionDecl L" for L
    by (cases "ASTNodeOf L"; cases "the (ASTNodeOf L)")
      (simp_all add: isASTNode_SwitchStmt_def hasASTLocation_def
        isASTNode_AbstractFunctionDecl_def)
  then have unreachable: "diagnoseUnreachable F I Context =
           (if getKind I = UnreachableInst \<and> isASTNode_SwitchStmt (getLoc I)
            then Inr (Context\<lparr>Diags := Diags Context @
                        [\<lparr>DiagLoc = getEndSourceLoc (getLoc I),
                          DiagID = non_exhaustive_switch\<rparr>]\<rparr>)
            else Inr Context)"
    using mr
    by (simp add: diagnoseUnreachable_def diagnoseNonExhaustiveSwitch_def diagnose_def Let_def)
  have ret: "diagnoseReturn F I Context = Inr Context"
    using assms by (simp add: diagnoseReturn_def)
  show ?thesis
    using mr [of Context] ret unreachable blocks by (intro conjI)
qed

theorem unresolved_function_only_switch_diagnostics_witness:
  "getAsASTNode_FuncDecl (getLocation ex_closure) = None
   \<and> diagnoseMissingReturn ex_closure ex_unreachable_f emptyContext = Inr emptyContext
   \<and> diagnoseUnreachable ex_closure ex_unreachable_f emptyContext = Inr emptyContext
   \<and> diagnoseReturn ex_closure ex_return emptyContext = Inr emptyContext
   \<and> (\<exists>ds. visitBlocks ex_closure (Blocks ex_closure) emptyContext = Inr \<lparr>Diags = ds\<rparr>
           \<and> (\<forall>d \<in> set ds. DiagID d \<noteq> return_from_noreturn
                             \<and> (\<forall>ty. DiagID d \<noteq> missing_return ty)))"
proof -
  have unresolved: "getAsASTNode_FuncDecl (getLocation ex_closure) = None"
    by (simp add: ex_closure_def getAsASTNode_FuncDecl_def)
  have tagged: "getKind ex_unreachable_f = UnreachableInst
      \<and> \<not> isASTNode_SwitchStmt (getLoc ex_unreachable_f)"
    by (simp add: ex_unreachable_f_def isASTNode_SwitchStmt_def)
  show ?thesis
    using unresolved tagged
      unresolved_function_only_switch_diagnostics [OF unresolved, of ex_unreachable_f
        emptyContext "Blocks ex_closure"]
      unresolved_function_only_switch_diagnostics [OF unresolved, of ex_return emptyContext
        "Blocks ex_closure"]
    by (simp add: emptyContext_def)
qed

text \<open>
  The unreachable classifier does not skip the switch-tagged unreachable instruction of
  the sample closure, whose location resolves to no \<open>FuncDecl\<close>: it emits
  \<open>non_exhaustive_switch\<close> at the end of the switch, and so does the loop body.
\<close>

theorem unresolved_function_switch_counterexample:
  "getAsASTNode_FuncDecl (getLocation ex_closure) = None
   \<and> diagnoseUnreachable ex_closure ex_unreachable_switch emptyContext =
       Inr \<lparr>Diags = [\<lparr>DiagLoc = 130, DiagID = non_exhaustive_switch\<rparr>]\<rparr>
   \<and> diagnoseUnreachable ex_closure ex_unreachable_switch emptyContext \<noteq> Inr emptyContext
   \<and> visitInstruction ex_closure ex_unreachable_switch emptyContext \<noteq> Inr emptyContext"
  by (simp add: visitInstruction_def classifier_defs query_defs ex_closure_def
      ex_unreachable_switch_def emptyContext_def)

end
